theory Spec2Isabelle
  imports Complex_Main "HOL-Library.Sublist"
begin

section \<open>JavaScript strings\<close>

text \<open>
  A JavaScript string is a sequence of UTF-16 code units; a code unit is modelled as an
  integer. The status words of the gradebook export are outside ASCII, so the
  8-bit characters of HOL cannot hold them. \<open>ascii\<close> embeds an ASCII literal.
\<close>

type_synonym jsstring = "int list"

definition ascii :: "string \<Rightarrow> jsstring" where
  "ascii s = map of_char s"

text \<open>
  \<open>String.prototype.trim\<close> removes WhiteSpace and LineTerminator code points from both
  ends: TAB, LF, VT, FF, CR, SP, NBSP, U+1680, U+2000..U+200A, LS, PS, U+202F, U+205F,
  U+3000 and the byte order mark.
\<close>

definition isWhiteSpace :: "int \<Rightarrow> bool" where
  "isWhiteSpace c \<longleftrightarrow>
     c \<in> set [9, 10, 11, 12, 13, 32, 160, 5760, 8232, 8233, 8239, 8287, 12288, 65279]
     \<or> (8192 \<le> c \<and> c \<le> 8202)"

definition trimStart :: "jsstring \<Rightarrow> jsstring" where
  "trimStart s = dropWhile isWhiteSpace s"

definition trim :: "jsstring \<Rightarrow> jsstring" where
  "trim s = rev (dropWhile isWhiteSpace (rev (dropWhile isWhiteSpace s)))"

definition startsWith :: "jsstring \<Rightarrow> jsstring \<Rightarrow> bool" where
  "startsWith s p = prefix p s"

definition endsWith :: "jsstring \<Rightarrow> jsstring \<Rightarrow> bool" where
  "endsWith s p = suffix p s"

definition includesStr :: "jsstring \<Rightarrow> jsstring \<Rightarrow> bool" where
  "includesStr s h = sublist h s"

text \<open>\<open>s.substring(a, b)\<close> for \<open>a \<le> b \<le> s.length\<close>, and \<open>s.slice(1, -1)\<close>.\<close>

definition substring :: "jsstring \<Rightarrow> nat \<Rightarrow> nat \<Rightarrow> jsstring" where
  "substring s a b = take (b - a) (drop a s)"

definition slice_1_m1 :: "jsstring \<Rightarrow> jsstring" where
  "slice_1_m1 s = take (length s - 2) (drop 1 s)"

text \<open>\<open>xs.join(sep)\<close> on an array of strings.\<close>

fun join :: "jsstring \<Rightarrow> jsstring list \<Rightarrow> jsstring" where
  "join sep [] = []"
| "join sep [x] = x"
| "join sep (x # y # ys) = x @ sep @ join sep (y # ys)"

text \<open>
  \<open>xs[i]\<close> on an array: \<open>None\<close> is \<open>undefined\<close>. \<open>orEmpty\<close> is \<open>x || ''\<close> on a
  string that may be undefined, and \<open>falsy\<close> is \<open>!x\<close> on one.
\<close>

definition elemAt :: "'a list \<Rightarrow> nat \<Rightarrow> 'a option" where
  "elemAt xs i = (if i < length xs then Some (xs ! i) else None)"

definition orEmpty :: "jsstring option \<Rightarrow> jsstring" where
  "orEmpty x = (case x of None \<Rightarrow> [] | Some s \<Rightarrow> s)"

definition falsy :: "jsstring option \<Rightarrow> bool" where
  "falsy x = (case x of None \<Rightarrow> True | Some s \<Rightarrow> s = [])"

section \<open>TextTableParser: parseCSVLine and parseCSV\<close>

text \<open>\<open>value.replace(/""/g, '"')\<close>: each doubled quote, left to right, becomes one.\<close>

fun replaceDoubledQuotes :: "jsstring \<Rightarrow> jsstring" where
  "replaceDoubledQuotes (c # d # cs) =
     (if c = 34 \<and> d = 34 then 34 # replaceDoubledQuotes cs
      else c # replaceDoubledQuotes (d # cs))"
| "replaceDoubledQuotes cs = cs"

text \<open>The value pushed for a cell: surrounding quotes removed if present, then trimmed.\<close>

definition cellValue :: "jsstring \<Rightarrow> jsstring" where
  "cellValue v =
     trim (if startsWith v [34] \<and> endsWith v [34]
           then replaceDoubledQuotes (slice_1_m1 v) else v)"

text \<open>
  The \<open>for\<close> loop of \<open>parseCSVLine\<close>, with its variables \<open>i\<close>, \<open>startValueIndex\<close>,
  \<open>inQuotes\<close> and \<open>result\<close>; the last branch is the code after the loop. 34 is the
  double quote, 44 the comma.
\<close>

function parseCSVLine_loop ::
  "jsstring \<Rightarrow> nat \<Rightarrow> nat \<Rightarrow> bool \<Rightarrow> jsstring list \<Rightarrow> jsstring list" where
  "parseCSVLine_loop line i startValueIndex inQuotes result =
     (if i < length line then
        (if line ! i = 34 then
           parseCSVLine_loop line (i + 1) startValueIndex (\<not> inQuotes) result
         else if line ! i = 44 \<and> \<not> inQuotes then
           parseCSVLine_loop line (i + 1) (i + 1) inQuotes
             (result @ [cellValue (substring line startValueIndex i)])
         else parseCSVLine_loop line (i + 1) startValueIndex inQuotes result)
      else result @ [cellValue (drop startValueIndex line)])"
  by pat_completeness auto
termination
  by (relation "measure (\<lambda>(line, i, s, q, r). length line - i)") auto

definition parseCSVLine :: "jsstring \<Rightarrow> jsstring list" where
  "parseCSVLine line = parseCSVLine_loop line 0 0 False []"

text \<open>
  \<open>content.split(/\r?\n/)\<close>: a line ends at LF (10) or at CR LF (13, 10); the first
  argument is the line read so far.
\<close>

fun splitLines :: "jsstring \<Rightarrow> jsstring \<Rightarrow> jsstring list" where
  "splitLines cur [] = [cur]"
| "splitLines cur [c] = (if c = 10 then [cur, []] else [cur @ [c]])"
| "splitLines cur (c # d # cs) =
     (if c = 10 then cur # splitLines [] (d # cs)
      else if c = 13 \<and> d = 10 then cur # splitLines [] cs
      else splitLines (cur @ [c]) (d # cs))"

record ParseResult =
  headers :: "jsstring list"
  data :: "jsstring list list"

definition padRow :: "nat \<Rightarrow> jsstring list \<Rightarrow> jsstring list" where
  "padRow headerLength row =
     (if length row < headerLength then row @ replicate (headerLength - length row) []
      else row)"

definition parseCSV :: "jsstring \<Rightarrow> ParseResult" where
  "parseCSV content =
     (let lines = filter (\<lambda>line. trim line \<noteq> []) (splitLines [] content) in
      if length lines = 0 then \<lparr>headers = [], data = []\<rparr>
      else
        let data = map parseCSVLine lines;
            headerLength = length (data ! 0);
            normalizedData = map (padRow headerLength) data
        in \<lparr>headers = normalizedData ! 0, data = normalizedData\<rparr>)"

section \<open>Numbers and the host\<close>

text \<open>
  A JavaScript number is an IEEE 754 double. The code tests a number only with
  \<open>isNaN\<close>, and only the result of \<open>parseFloat\<close>, which is NaN exactly when the trimmed
  string has no prefix that is a StrDecimalLiteral: an optional sign, then \<open>Infinity\<close>,
  a digit, or a dot and a digit. This test is modelled exactly. The values themselves
  (conversion of the decimal prefix to a double, arithmetic, \<open>toFixed(1)\<close>) are operations
  of the host, as are \<open>toUpperCase\<close> (the Unicode case mapping), the clock behind
  \<open>getWorkingDaysFromStartToToday\<close> and \<open>Math.random\<close>; every theorem holds for every
  host. \<open>workingDays\<close> is the list \<open>getWorkingDaysFromStartToToday\<close> returns for a start
  date, and \<open>randomIndex k n\<close> is \<open>Math.floor(Math.random() * n)\<close> at the \<open>k\<close>-th draw.
\<close>

datatype 'v jsnumber = NaN | Num 'v

record 'v runtime =
  toUpperCase :: "jsstring \<Rightarrow> jsstring"
  stringNumericValue :: "jsstring \<Rightarrow> 'v"
  numberOfNat :: "nat \<Rightarrow> 'v jsnumber"
  numAdd :: "'v jsnumber \<Rightarrow> 'v jsnumber \<Rightarrow> 'v jsnumber"
  numMul :: "'v jsnumber \<Rightarrow> 'v jsnumber \<Rightarrow> 'v jsnumber"
  numDiv :: "'v jsnumber \<Rightarrow> 'v jsnumber \<Rightarrow> 'v jsnumber"
  toFixed1 :: "'v jsnumber \<Rightarrow> jsstring"
  workingDays :: "jsstring \<Rightarrow> jsstring list"
  randomIndex :: "nat \<Rightarrow> nat \<Rightarrow> nat"

definition isNaN :: "'v jsnumber \<Rightarrow> bool" where
  "isNaN x = (case x of NaN \<Rightarrow> True | Num v \<Rightarrow> False)"

definition isDigit :: "int \<Rightarrow> bool" where
  "isDigit c \<longleftrightarrow> 48 \<le> c \<and> c \<le> 57"

definition unsignedPrefix :: "jsstring \<Rightarrow> bool" where
  "unsignedPrefix u \<longleftrightarrow>
     startsWith u (ascii ''Infinity'')
     \<or> (case u of [] \<Rightarrow> False
         | c # r \<Rightarrow> isDigit c \<or> (c = 46 \<and> (case r of [] \<Rightarrow> False | d # r' \<Rightarrow> isDigit d)))"

definition hasNumericPrefix :: "jsstring \<Rightarrow> bool" where
  "hasNumericPrefix t =
     (case t of [] \<Rightarrow> False
      | c # r \<Rightarrow> if c = 43 \<or> c = 45 then unsignedPrefix r else unsignedPrefix t)"

definition parseFloat :: "'v runtime \<Rightarrow> jsstring \<Rightarrow> 'v jsnumber" where
  "parseFloat rt s =
     (if hasNumericPrefix (trimStart s) then Num (stringNumericValue rt (trimStart s))
      else NaN)"

section \<open>HeaderLocator: findHeaderRowIndex\<close>

text \<open>The four header markers: Student Name, two Chinese labels, Name.\<close>

definition potentialHeaders :: "jsstring list" where
  "potentialHeaders =
     [ascii ''Student Name'',
      [23398, 29983, 22995, 21517], [22995, 21517], ascii ''Name'']"

definition isHeaderRow :: "jsstring list \<Rightarrow> bool" where
  "isHeaderRow row =
     (let firstCell = trim (orEmpty (elemAt row 0))
      in list_ex (\<lambda>h. includesStr firstCell h) potentialHeaders)"

definition findHeaderRowIndex :: "jsstring list list \<Rightarrow> nat" where
  "findHeaderRowIndex table =
     (case find (\<lambda>i. isHeaderRow (table ! i)) [0 ..< min (length table) 20] of
        Some i \<Rightarrow> i
      | None \<Rightarrow> 0)"

section \<open>AssignmentExtractor and the discovery pass\<close>

text \<open>\<open>maxMarks.replace(/[^\d.]/g, '')\<close> keeps the digits and the dots (46).\<close>

definition cleanMaxMarks :: "jsstring \<Rightarrow> jsstring" where
  "cleanMaxMarks maxMarks = filter (\<lambda>c. isDigit c \<or> c = 46) maxMarks"

definition isNumericMax :: "'v runtime \<Rightarrow> jsstring list \<Rightarrow> nat \<Rightarrow> bool" where
  "isNumericMax rt maxMarksRow i =
     (let clean = cleanMaxMarks (orEmpty (elemAt maxMarksRow i))
      in \<not> isNaN (parseFloat rt clean) \<and> clean \<noteq> [])"

definition validIndices :: "'v runtime \<Rightarrow> jsstring list \<Rightarrow> jsstring list \<Rightarrow> nat list" where
  "validIndices rt headerRow maxMarksRow =
     filter (\<lambda>i. headerRow ! i \<noteq> [] \<and> isNumericMax rt maxMarksRow i)
       [1 ..< length headerRow]"

text \<open>
  A row is skipped when its first cell is missing, empty, or starts with three dashes.
\<close>

definition skipRow :: "jsstring list \<Rightarrow> bool" where
  "skipRow row \<longleftrightarrow> falsy (elemAt row 0) \<or> startsWith (orEmpty (elemAt row 0)) (ascii ''---'')"

text \<open>\<open>uniqueSet.add(raw)\<close>: a Set keeps insertion order and no duplicates.\<close>

definition setAdd :: "jsstring \<Rightarrow> jsstring list \<Rightarrow> jsstring list" where
  "setAdd raw uniqueSet = (if raw \<in> set uniqueSet then uniqueSet else uniqueSet @ [raw])"

text \<open>
  The body of the inner \<open>forEach\<close> of \<open>getUniqueNonNumericMarks\<close>; the placeholders are
  \<open>-\<close>, the Chinese category label and \<open>Category\<close>.
\<close>

definition scanCell ::
  "'v runtime \<Rightarrow> jsstring list \<Rightarrow> jsstring list \<Rightarrow> jsstring list \<Rightarrow> nat \<Rightarrow> jsstring list" where
  "scanCell rt headerRow row uniqueSet index =
     (let raw = trim (orEmpty (elemAt row index)) in
      if Some raw = map_option trim (elemAt headerRow index) then uniqueSet
      else if raw = ascii ''-'' \<or> raw = [25104, 32489, 31867, 21035]
              \<or> raw = ascii ''Category'' then uniqueSet
      else if raw \<noteq> [] \<and> isNaN (parseFloat rt raw) then setAdd raw uniqueSet
      else uniqueSet)"

definition scanRow ::
  "'v runtime \<Rightarrow> jsstring list \<Rightarrow> nat list \<Rightarrow> jsstring list \<Rightarrow> jsstring list \<Rightarrow> jsstring list" where
  "scanRow rt headerRow indices uniqueSet row =
     (if skipRow row then uniqueSet
      else foldl (scanCell rt headerRow row) uniqueSet indices)"

definition getUniqueNonNumericMarks :: "'v runtime \<Rightarrow> ParseResult \<Rightarrow> jsstring list" where
  "getUniqueNonNumericMarks rt parsedData =
     (let table = data parsedData in
      if length table < 2 then []
      else
        let headerIdx = findHeaderRowIndex table;
            headerRow = table ! headerIdx
        in if length table \<le> headerIdx + 1 then []
           else
             let maxMarksRow = table ! (headerIdx + 1);
                 indices = validIndices rt headerRow maxMarksRow;
                 studentRows = drop (headerIdx + 3) table
             in foldl (scanRow rt headerRow indices) [] studentRows)"

text \<open>
  The state update of \<open>handleFileSelect\<close>: every found status whose upper-case form is
  not yet a key is added with the value \<open>0\<close>; the old state is returned when
  nothing was added. The mapping object is a map from keys to values; its keys are read
  in upper case, which no inherited property name is, and it is taken to have no key
  \<open>hasOwnProperty\<close> of its own (the code calls \<open>gradeMapping.hasOwnProperty\<close>).
\<close>

type_synonym GradeMapping = "jsstring \<rightharpoonup> jsstring"

definition addStatus ::
  "'v runtime \<Rightarrow> GradeMapping \<times> bool \<Rightarrow> jsstring \<Rightarrow> GradeMapping \<times> bool" where
  "addStatus rt st status =
     (let key = toUpperCase rt status in
      if fst st key = None then ((fst st)(key \<mapsto> ascii ''0''), True) else st)"

definition mergeStatuses :: "'v runtime \<Rightarrow> GradeMapping \<Rightarrow> jsstring list \<Rightarrow> GradeMapping" where
  "mergeStatuses rt prev foundStatuses =
     (let st = foldl (addStatus rt) (prev, False) foundStatuses
      in if snd st then fst st else prev)"

definition handleFileSelect :: "'v runtime \<Rightarrow> GradeMapping \<Rightarrow> jsstring \<Rightarrow> GradeMapping" where
  "handleFileSelect rt prev content =
     mergeStatuses rt prev (getUniqueNonNumericMarks rt (parseCSV content))"

section \<open>ColumnClassifier, MarkResolver and processClassInToGradebook\<close>

record ProcessedAssignment =
  name :: jsstring
  totalMarks :: jsstring
  originalIndex :: nat

text \<open>
  \<open>AssignmentDate\<close> is declared a string, and holds one for every assignment name but
  \<open>__proto__\<close>, for which it holds the object \<open>Object.prototype\<close> (see \<open>assignmentDate\<close>
  below).
\<close>

datatype DateValue = DateString jsstring | ObjectPrototype

record TargetRow =
  StudentName :: jsstring
  AssignmentName :: jsstring
  AssignmentDate :: DateValue
  Category :: jsstring
  Marks :: jsstring
  TotalMarksPossible :: jsstring

text \<open>The standard grades: A*, A, B, C, D, E, F, G, U.\<close>

definition STANDARD_GRADES :: "jsstring list" where
  "STANDARD_GRADES =
     [ascii ''A*'', ascii ''A'', ascii ''B'', ascii ''C'', ascii ''D'', ascii ''E'',
      ascii ''F'', ascii ''G'', ascii ''U'']"

definition validAssignments ::
  "'v runtime \<Rightarrow> jsstring list \<Rightarrow> jsstring list \<Rightarrow> ProcessedAssignment list" where
  "validAssignments rt headerRow maxMarksRow =
     map (\<lambda>i. \<lparr>name = headerRow ! i,
               totalMarks = cleanMaxMarks (orEmpty (elemAt maxMarksRow i)),
               originalIndex = i\<rparr>)
       (filter (\<lambda>i. headerRow ! i \<noteq> [] \<and> isNumericMax rt maxMarksRow i)
          [1 ..< length headerRow])"

text \<open>
  \<open>assignmentDates\<close> and \<open>columnStats\<close> are plain objects used as dictionaries. Every
  name that is read has been written before, so the properties an object inherits from
  \<open>Object.prototype\<close> are never seen, with one exception: \<open>__proto__\<close> is an accessor.
  Writing a string (or \<open>undefined\<close>) to it is ignored, and reading it returns the
  prototype, \<open>Object.prototype\<close>, which is truthy. Writing an object to it, as
  \<open>columnStats\<close> does, makes that object the prototype, and reading it returns that
  object: there the key behaves like any other, and \<open>columnStats\<close> is a map.

  \<open>assignmentDates\<close>: one draw per valid assignment, in order, stored under the
  assignment's name unless the name is \<open>__proto__\<close>. An index outside \<open>workingDays\<close>
  reads \<open>undefined\<close>. \<open>assignmentDate\<close> is \<open>assignmentDates[name] || fallbackDate\<close>.
\<close>

definition protoKey :: jsstring where
  "protoKey = ascii ''__proto__''"

definition assignmentDates ::
  "'v runtime \<Rightarrow> jsstring list \<Rightarrow> ProcessedAssignment list \<Rightarrow> (jsstring \<rightharpoonup> jsstring)" where
  "assignmentDates rt days assignments =
     foldl (\<lambda>dates (k, assignment).
              if name assignment = protoKey then dates
              else dates(name assignment := elemAt days (randomIndex rt k (length days))))
       Map.empty (enumerate 0 assignments)"

definition assignmentDate :: "(jsstring \<rightharpoonup> jsstring) \<Rightarrow> jsstring \<Rightarrow> jsstring \<Rightarrow> DateValue" where
  "assignmentDate dates fallback n =
     (if n = protoKey then ObjectPrototype
      else if falsy (dates n) then DateString fallback
      else DateString (orEmpty (dates n)))"

text \<open>\<open>selectedDate.split('-')\<close> (45 is the dash) and the fallback date.\<close>

fun splitDash :: "jsstring \<Rightarrow> jsstring \<Rightarrow> jsstring list" where
  "splitDash cur [] = [cur]"
| "splitDash cur (c # cs) =
     (if c = 45 then cur # splitDash [] cs else splitDash (cur @ [c]) cs)"

definition fallbackDate :: "jsstring \<Rightarrow> jsstring" where
  "fallbackDate selectedDate =
     (let dateParts = splitDash [] selectedDate in
      if length dateParts = 3
      then dateParts ! 2 @ ascii ''/'' @ dateParts ! 1 @ ascii ''/'' @ dateParts ! 0
      else selectedDate)"

datatype ColumnType = PURE_STATUS | MIXED

record 'v ColumnStat =
  type :: ColumnType
  average :: "'v jsnumber"

text \<open>The three variables the analysis loop of one column updates.\<close>

record 'v ColumnScan =
  hasNumeric :: bool
  hasGrade :: bool
  valuesForAverage :: "'v jsnumber list"

text \<open>
  \<open>mapped && !isNaN(parseFloat(mapped))\<close> on a mapping entry that may be undefined, and
  the score \<open>(percentage / 100) * totalMarksNum\<close>.
\<close>

definition numericEntry :: "'v runtime \<Rightarrow> jsstring option \<Rightarrow> bool" where
  "numericEntry rt mapped \<longleftrightarrow> \<not> falsy mapped \<and> \<not> isNaN (parseFloat rt (orEmpty mapped))"

definition calculatedScore :: "'v runtime \<Rightarrow> 'v jsnumber \<Rightarrow> 'v jsnumber \<Rightarrow> 'v jsnumber" where
  "calculatedScore rt percentage totalMarksNum =
     numMul rt (numDiv rt percentage (numberOfNat rt 100)) totalMarksNum"

text \<open>The body of the \<open>for\<close> loop over the student rows, for one assignment.\<close>

definition analyzeRow ::
  "'v runtime \<Rightarrow> GradeMapping \<Rightarrow> ProcessedAssignment \<Rightarrow> 'v ColumnScan \<Rightarrow> jsstring list
   \<Rightarrow> 'v ColumnScan" where
  "analyzeRow rt gradeMapping assignment st row =
     (let totalMarksNum = parseFloat rt (totalMarks assignment);
          raw = trim (orEmpty (elemAt row (originalIndex assignment)));
          numericVal = parseFloat rt raw;
          mapped = gradeMapping (toUpperCase rt raw)
      in
      if skipRow row then st
      else if raw = [] then st
      else if raw = trim (name assignment) then st
      else if raw = ascii ''-'' then st
      else if \<not> isNaN numericVal then
        st\<lparr>hasNumeric := True, valuesForAverage := valuesForAverage st @ [numericVal]\<rparr>
      else if toUpperCase rt raw \<in> set STANDARD_GRADES then
        (if numericEntry rt mapped then
           st\<lparr>hasGrade := True,
              valuesForAverage := valuesForAverage st
                @ [calculatedScore rt (parseFloat rt (orEmpty mapped)) totalMarksNum]\<rparr>
         else st\<lparr>hasGrade := True\<rparr>)
      else
        (if numericEntry rt mapped then
           st\<lparr>valuesForAverage := valuesForAverage st
                @ [calculatedScore rt (parseFloat rt (orEmpty mapped)) totalMarksNum]\<rparr>
         else st))"

definition columnStat ::
  "'v runtime \<Rightarrow> GradeMapping \<Rightarrow> jsstring list list \<Rightarrow> ProcessedAssignment \<Rightarrow> 'v ColumnStat" where
  "columnStat rt gradeMapping studentDataRows assignment =
     (let st = foldl (analyzeRow rt gradeMapping assignment)
                 \<lparr>hasNumeric = False, hasGrade = False, valuesForAverage = []\<rparr>
                 studentDataRows;
          values = valuesForAverage st
      in \<lparr>type = (if hasNumeric st \<or> hasGrade st then MIXED else PURE_STATUS),
          average =
            (if length values > 0
             then numDiv rt (foldl (numAdd rt) (numberOfNat rt 0) values)
                    (numberOfNat rt (length values))
             else numberOfNat rt 0)\<rparr>)"

definition columnStats ::
  "'v runtime \<Rightarrow> GradeMapping \<Rightarrow> jsstring list list \<Rightarrow> ProcessedAssignment list
   \<Rightarrow> (jsstring \<rightharpoonup> 'v ColumnStat)" where
  "columnStats rt gradeMapping studentDataRows assignments =
     foldl (\<lambda>stats assignment.
              stats(name assignment \<mapsto> columnStat rt gradeMapping studentDataRows assignment))
       Map.empty assignments"

text \<open>\<open>s.replace(/\.0$/, '.0')\<close>: a final \<open>.0\<close> is replaced by \<open>.0\<close>.\<close>

definition replaceDotZero :: "jsstring \<Rightarrow> jsstring" where
  "replaceDotZero s =
     (if endsWith s (ascii ''.0'') then take (length s - 2) s @ ascii ''.0'' else s)"

text \<open>
  The column rules (Rule 1a and Rule 1b): the pair \<open>(ruleApplied, ruleValue)\<close>. The
  three status words are \<open>submitted\<close>, \<open>notSubmitted\<close> and \<open>resubmitted\<close>.
\<close>

definition submitted :: jsstring where
  "submitted = [24050, 25552, 20132]"

definition notSubmitted :: jsstring where
  "notSubmitted = [26410, 25552, 20132]"

definition resubmitted :: jsstring where
  "resubmitted = [24050, 34917, 20132]"

definition columnRule ::
  "'v runtime \<Rightarrow> 'v ColumnStat \<Rightarrow> 'v jsnumber \<Rightarrow> jsstring \<Rightarrow> bool \<times> jsstring" where
  "columnRule rt stats totalMarksNum rawMark =
     (if type stats = PURE_STATUS then
        (if rawMark = submitted then (True, toFixed1 rt totalMarksNum)
         else if rawMark = notSubmitted then (True, ascii ''0'')
         else if rawMark = resubmitted then
           (True, toFixed1 rt
              (numMul rt (numDiv rt (numberOfNat rt 60) (numberOfNat rt 100)) totalMarksNum))
         else (False, []))
      else
        (if rawMark = notSubmitted then (True, ascii ''0'')
         else if rawMark = submitted then
           (True, if toFixed1 rt (average stats) = [] then ascii ''0''
                  else toFixed1 rt (average stats))
         else (False, [])))"

text \<open>\<open>finalMark\<close> of one cell, from the trimmed raw mark.\<close>

definition finalMark ::
  "'v runtime \<Rightarrow> GradeMapping \<Rightarrow> ProcessedAssignment \<Rightarrow> 'v ColumnStat \<Rightarrow> jsstring
   \<Rightarrow> jsstring" where
  "finalMark rt gradeMapping assignment stats rawMark =
     (let numericMark = parseFloat rt rawMark;
          upperRaw = toUpperCase rt rawMark;
          totalMarksNum = parseFloat rt (totalMarks assignment);
          rule = columnRule rt stats totalMarksNum rawMark
      in
      if rawMark = ascii ''-'' then []
      else if fst rule then replaceDotZero (snd rule)
      else if \<not> isNaN numericMark then replaceDotZero (toFixed1 rt numericMark)
      else
        (case gradeMapping upperRaw of
           Some mapped \<Rightarrow>
             if mapped \<noteq> [] \<and> \<not> isNaN (parseFloat rt mapped)
             then replaceDotZero
                    (toFixed1 rt (calculatedScore rt (parseFloat rt mapped) totalMarksNum))
             else []
         | None \<Rightarrow> []))"

text \<open>
  The body of the inner \<open>forEach\<close>: nothing is pushed when the cell equals the
  assignment's name; otherwise one row. \<open>Coursework\<close> is the constant category. The
  statistics of every valid assignment's name are stored before they are read
  (lemma \<open>columnStats_defined\<close>).
\<close>

definition processCell ::
  "'v runtime \<Rightarrow> GradeMapping \<Rightarrow> (jsstring \<rightharpoonup> 'v ColumnStat) \<Rightarrow> (jsstring \<rightharpoonup> jsstring)
   \<Rightarrow> jsstring \<Rightarrow> jsstring list \<Rightarrow> ProcessedAssignment \<Rightarrow> TargetRow list" where
  "processCell rt gradeMapping stats dates fallback row assignment =
     (let rawMark = trim (orEmpty (elemAt row (originalIndex assignment))) in
      if rawMark = trim (name assignment) then []
      else
        [\<lparr>StudentName = orEmpty (elemAt row 0),
          AssignmentName = name assignment,
          AssignmentDate = assignmentDate dates fallback (name assignment),
          Category = ascii ''Coursework'',
          Marks = finalMark rt gradeMapping assignment (the (stats (name assignment))) rawMark,
          TotalMarksPossible = toFixed1 rt (parseFloat rt (totalMarks assignment))\<rparr>])"

definition processRow ::
  "'v runtime \<Rightarrow> GradeMapping \<Rightarrow> (jsstring \<rightharpoonup> 'v ColumnStat) \<Rightarrow> (jsstring \<rightharpoonup> jsstring)
   \<Rightarrow> jsstring \<Rightarrow> ProcessedAssignment list \<Rightarrow> jsstring list \<Rightarrow> TargetRow list" where
  "processRow rt gradeMapping stats dates fallback assignments row =
     (if skipRow row then []
      else concat (map (processCell rt gradeMapping stats dates fallback row) assignments))"

definition processClassInToGradebook ::
  "'v runtime \<Rightarrow> ParseResult \<Rightarrow> jsstring \<Rightarrow> GradeMapping \<Rightarrow> TargetRow list" where
  "processClassInToGradebook rt parsedData selectedDate gradeMapping =
     (let table = data parsedData;
          headerIdx = findHeaderRowIndex table
      in
      if length table < headerIdx + 2 then []
      else
        let headerRow = table ! headerIdx;
            maxMarksRow = table ! (headerIdx + 1);
            studentDataRows = drop (headerIdx + 3) table;
            assignments = validAssignments rt headerRow maxMarksRow;
            dates = assignmentDates rt (workingDays rt selectedDate) assignments;
            stats = columnStats rt gradeMapping studentDataRows assignments
        in concat (map (processRow rt gradeMapping stats dates (fallbackDate selectedDate)
                          assignments) studentDataRows))"

section \<open>TableEmitter: generateCSVContent\<close>

text \<open>\<open>s.replace(/"/g, '""')\<close>.\<close>

definition doubleQuotes :: "jsstring \<Rightarrow> jsstring" where
  "doubleQuotes s = concat (map (\<lambda>c. if c = 34 then [34, 34] else [c]) s)"

definition csvHeaders :: "jsstring list" where
  "csvHeaders =
     [ascii ''Student Name'', ascii ''Assignment Name'', ascii ''Assignment Date'',
      ascii ''Category'', ascii ''Marks'', ascii ''Total Marks Possible'']"

text \<open>
  \<open>join\<close> converts every element to a string; \<open>Object.prototype\<close> converts to
  \<open>[object Object]\<close>.
\<close>

definition dateText :: "DateValue \<Rightarrow> jsstring" where
  "dateText d = (case d of DateString s \<Rightarrow> s | ObjectPrototype \<Rightarrow> ascii ''[object Object]'')"

definition csvRow :: "TargetRow \<Rightarrow> jsstring list" where
  "csvRow row =
     [[34] @ StudentName row @ [34],
      [34] @ doubleQuotes (AssignmentName row) @ [34],
      dateText (AssignmentDate row),
      [34] @ Category row @ [34],
      (if Marks row \<noteq> [] then Marks row else []),
      TotalMarksPossible row]"

definition generateCSVContent :: "TargetRow list \<Rightarrow> jsstring" where
  "generateCSVContent rows =
     join [10] (join [44] csvHeaders # map (\<lambda>r. join [44] (csvRow r)) rows)"

section \<open>A host for evaluating examples\<close>

text \<open>
  The examples below are evaluated on one host: \<open>toUpperCase\<close> maps the ASCII letters
  and leaves every other code unit alone, numbers are exact rationals (the decimal
  prefix without exponent; \<open>Infinity\<close>, overflow and rounding to a double are not
  represented), \<open>toFixed(1)\<close> rounds half away from zero, the only working day is the
  start date itself, and every draw picks index 0. It agrees with JavaScript on the
  small decimal values of the examples.
\<close>

definition upperASCII :: "int \<Rightarrow> int" where
  "upperASCII c = (if 97 \<le> c \<and> c \<le> 122 then c - 32 else c)"

definition digitsValue :: "jsstring \<Rightarrow> int" where
  "digitsValue ds = foldl (\<lambda>n c. 10 * n + (c - 48)) 0 ds"

definition unsignedValue :: "jsstring \<Rightarrow> rat" where
  "unsignedValue u =
     (let whole = takeWhile isDigit u;
          rest = dropWhile isDigit u;
          frac = (case rest of [] \<Rightarrow> [] | c # r \<Rightarrow> if c = 46 then takeWhile isDigit r else [])
      in of_int (digitsValue whole) + of_int (digitsValue frac) / 10 ^ length frac)"

definition decimalValue :: "jsstring \<Rightarrow> rat" where
  "decimalValue t =
     (case t of [] \<Rightarrow> 0
      | c # r \<Rightarrow> if c = 45 then - unsignedValue r
                else if c = 43 then unsignedValue r else unsignedValue t)"

function intDigits :: "int \<Rightarrow> jsstring" where
  "intDigits n = (if n < 10 then [48 + n] else intDigits (n div 10) @ [48 + n mod 10])"
  by pat_completeness auto
termination
  by (relation "measure nat") auto

definition ratToFixed1 :: "rat jsnumber \<Rightarrow> jsstring" where
  "ratToFixed1 x =
     (case x of
        NaN \<Rightarrow> ascii ''NaN''
      | Num v \<Rightarrow>
          (let n = \<lfloor>\<bar>v\<bar> * 10 + 1 / 2\<rfloor>
           in (if v < 0 then ascii ''-'' else []) @ intDigits (n div 10) @ ascii ''.'' @ intDigits (n mod 10)))"

definition ratOp :: "(rat \<Rightarrow> rat \<Rightarrow> rat) \<Rightarrow> rat jsnumber \<Rightarrow> rat jsnumber \<Rightarrow> rat jsnumber" where
  "ratOp f x y =
     (case x of NaN \<Rightarrow> NaN | Num a \<Rightarrow> (case y of NaN \<Rightarrow> NaN | Num b \<Rightarrow> Num (f a b)))"

definition exampleHost :: "rat runtime" where
  "exampleHost =
     \<lparr>toUpperCase = map upperASCII,
      stringNumericValue = decimalValue,
      numberOfNat = (\<lambda>n. Num (of_nat n)),
      numAdd = ratOp (+),
      numMul = ratOp (*),
      numDiv = ratOp (/),
      toFixed1 = ratToFixed1,
      workingDays = (\<lambda>selectedDate. [fallbackDate selectedDate]),
      randomIndex = (\<lambda>k n. 0)\<rparr>"

text \<open>
  An example file: the header row \<open>Name,HW,Quiz\<close>, the maxima 50 and 20, an empty
  category row, \<open>Bob\<close> with the submitted status word in both columns and \<open>Ann\<close> with
  the status word and 7.
\<close>

definition submittedExample :: ParseResult where
  "submittedExample =
     parseCSV (ascii ''Name,HW,Quiz'' @ [10] @ ascii '',50,20'' @ [10] @ ascii '',,'' @ [10] @
               ascii ''Bob,'' @ submitted @ ascii '','' @ submitted @ [10] @
               ascii ''Ann,'' @ submitted @ ascii '',7'')"

section \<open>Predicates of the specification\<close>

text \<open>
  The evidence that makes a column Mixed, in the words of the specification: a
  qualifying student row whose cell in the column, trimmed, is not empty, not \<open>-\<close>, not
  the assignment's own name, and parses as a number or is, in upper case, a standard
  grade.
\<close>

definition gradeEvidence :: "'v runtime \<Rightarrow> ProcessedAssignment \<Rightarrow> jsstring list \<Rightarrow> bool" where
  "gradeEvidence rt assignment row \<longleftrightarrow>
     \<not> skipRow row \<and>
     (let raw = trim (orEmpty (elemAt row (originalIndex assignment))) in
      raw \<noteq> [] \<and> raw \<noteq> ascii ''-'' \<and> raw \<noteq> trim (name assignment) \<and>
      (\<not> isNaN (parseFloat rt raw) \<or> toUpperCase rt raw \<in> set STANDARD_GRADES))"

text \<open>
  The student rows that qualify, the valid assignments and their column indices (none
  when the table has no maximum-marks row), and whether a cell, trimmed, is the trimmed
  name of its column.
\<close>

definition qualifyingStudents :: "ParseResult \<Rightarrow> jsstring list list" where
  "qualifyingStudents parsedData =
     filter (\<lambda>row. \<not> skipRow row)
       (drop (findHeaderRowIndex (data parsedData) + 3) (data parsedData))"

definition assignmentsOf :: "'v runtime \<Rightarrow> ParseResult \<Rightarrow> ProcessedAssignment list" where
  "assignmentsOf rt parsedData =
     (let table = data parsedData; h = findHeaderRowIndex table
      in if length table < h + 2 then []
         else validAssignments rt (table ! h) (table ! (h + 1)))"

definition cellIsHeader :: "ProcessedAssignment \<Rightarrow> jsstring list \<Rightarrow> bool" where
  "cellIsHeader assignment row \<longleftrightarrow>
     trim (orEmpty (elemAt row (originalIndex assignment))) = trim (name assignment)"

definition indicesOf :: "'v runtime \<Rightarrow> ParseResult \<Rightarrow> nat list" where
  "indicesOf rt parsedData =
     (let table = data parsedData; h = findHeaderRowIndex table
      in if length table < h + 2 then []
         else validIndices rt (table ! h) (table ! (h + 1)))"

definition headerCell :: "ParseResult \<Rightarrow> nat \<Rightarrow> jsstring" where
  "headerCell parsedData i = data parsedData ! findHeaderRowIndex (data parsedData) ! i"

text \<open>
  What the discovery pass keeps of a trimmed cell: not empty, no numeric prefix, not the
  trimmed header of its column, and none of the three placeholders.
\<close>

definition discoverable :: "'v runtime \<Rightarrow> jsstring \<Rightarrow> jsstring \<Rightarrow> bool" where
  "discoverable rt header raw \<longleftrightarrow>
     raw \<noteq> [] \<and> isNaN (parseFloat rt raw) \<and> raw \<noteq> trim header \<and> raw \<noteq> ascii ''-''
     \<and> raw \<noteq> [25104, 32489, 31867, 21035] \<and> raw \<noteq> ascii ''Category''"

text \<open>
  The loop of \<open>parseCSVLine\<close> read as a recursion over the rest of the line, with the
  text of the current cell in place of \<open>startValueIndex\<close> (lemma \<open>parseCSVLine_fields\<close>).
\<close>

fun fields :: "jsstring \<Rightarrow> jsstring \<Rightarrow> bool \<Rightarrow> jsstring list" where
  "fields [] cur inQuotes = [cellValue cur]"
| "fields (c # cs) cur inQuotes =
     (if c = 34 then fields cs (cur @ [c]) (\<not> inQuotes)
      else if c = 44 \<and> \<not> inQuotes then cellValue cur # fields cs [] inQuotes
      else fields cs (cur @ [c]) inQuotes)"

section \<open>Mark resolution\<close>

declare ascii_def [simp]


lemma replaceDotZero_id: "replaceDotZero s = s"
proof (cases "endsWith s (ascii ''.0'')")
  case True
  then obtain p where "s = p @ ascii ''.0''"
    by (auto simp: endsWith_def suffix_def)
  then show ?thesis by (simp add: replaceDotZero_def)
next
  case False
  then show ?thesis by (simp add: replaceDotZero_def)
qed

lemma finalMark_notSubmitted: "finalMark rt gradeMapping assignment stats notSubmitted = ascii ''0''"
  by (simp add: finalMark_def columnRule_def notSubmitted_def submitted_def
      replaceDotZero_id Let_def)

lemma finalMark_submitted:
  "finalMark rt gradeMapping assignment stats submitted =
     (if type stats = PURE_STATUS then toFixed1 rt (parseFloat rt (totalMarks assignment))
      else if toFixed1 rt (average stats) = [] then ascii ''0''
      else toFixed1 rt (average stats))"
  by (simp add: finalMark_def columnRule_def notSubmitted_def submitted_def
      replaceDotZero_id Let_def)

text \<open>
  C4. Every non-empty mark would be rendered with one decimal place. The code does not
  do so: a table with the header row \<open>Name, HW\<close>, the maximum 10 and the student row
  \<open>Bob\<close> with the not-submitted status word yields the mark \<open>0\<close>, where the total is
  rendered \<open>10.0\<close>. Lemma \<open>finalMark_notSubmitted\<close> shows the same for every column
  type, mapping and host.
\<close>

theorem notSubmitted_mark_has_no_decimal:
  "map (\<lambda>r. (Marks r, TotalMarksPossible r))
     (processClassInToGradebook exampleHost
        \<lparr>headers = [],
         data = [[ascii ''Name'', ascii ''HW''], [[], ascii ''10''], [[], []],
                 [ascii ''Bob'', [26410, 25552, 20132]]]\<rparr>
        (ascii ''2024-01-02'') Map.empty)
   = [(ascii ''0'', ascii ''10.0'')]"
  by code_simp

section \<open>The parser and the emitter\<close>

text \<open>No row of the parsed table is shorter than the first row.\<close>

lemma padRow_length: "headerLength \<le> length (padRow headerLength row)"
  by (simp add: padRow_def)

lemma padRow_self: "padRow (length row) row = row"
  by (simp add: padRow_def)

lemma parseCSV_rows_padded:
  "row \<in> set (data (parseCSV content)) \<Longrightarrow> length (headers (parseCSV content)) \<le> length row"
proof -
  assume r: "row \<in> set (data (parseCSV content))"
  let ?lines = "filter (\<lambda>line. trim line \<noteq> []) (splitLines [] content)"
  show ?thesis
  proof (cases "?lines = []")
    case True
    with r show ?thesis by (simp add: parseCSV_def)
  next
    case False
    then obtain l ls where l: "?lines = l # ls" by (cases ?lines) auto
    with r show ?thesis
      by (auto simp: parseCSV_def Let_def padRow_self padRow_length)
  qed
qed

text \<open>
  C6. Every row of the parsed table would have the width of the first row. The code
  pads the shorter rows only: the two lines \<open>a\<close> and \<open>b,c\<close> parse into a row of one cell
  and a row of two.
\<close>

theorem parseCSV_keeps_longer_rows:
  "map length (data (parseCSV (ascii ''a'' @ [10] @ ascii ''b,c''))) = [1, 2]"
  by code_simp

text \<open>
  C7. Every string field would be quoted with its double quotes doubled. The code
  doubles them in the assignment name only: with the student name and the assignment
  name both \<open>a"b\<close>, the emitted line starts with \<open>"a"b","a""b"\<close>. The date is not quoted
  and the empty mark is an empty field.
\<close>

theorem generateCSVContent_student_quote_not_doubled:
  "generateCSVContent
     [\<lparr>StudentName = (ascii ''a'' @ [34] @ ascii ''b''), AssignmentName = (ascii ''a'' @ [34] @ ascii ''b''),
       AssignmentDate = DateString (ascii ''02/01/2024''),
       Category = ascii ''Coursework'',
       Marks = [], TotalMarksPossible = ascii ''10.0''\<rparr>]
   = join [44] csvHeaders @ [10] @
     ([34] @ ascii ''a'' @ [34] @ ascii ''b'' @ [34] @ ascii '','' @
      [34] @ ascii ''a'' @ [34, 34] @ ascii ''b'' @ [34] @ ascii '',02/01/2024,'' @
      [34] @ ascii ''Coursework'' @ [34] @ ascii '',,10.0'')"
  by code_simp

subsection \<open>Round trip of the quoted fields\<close>

declare parseCSVLine_loop.simps [simp del]

lemma substring_snoc:
  "s \<le> i \<Longrightarrow> i < length line \<Longrightarrow> substring line s (Suc i) = substring line s i @ [line ! i]"
proof -
  assume a: "s \<le> i" "i < length line"
  then have "take (Suc (i - s)) (drop s line) = take (i - s) (drop s line) @ [drop s line ! (i - s)]"
    by (simp add: take_Suc_conv_app_nth)
  with a show ?thesis by (simp add: substring_def Suc_diff_le)
qed

lemma substring_end: "s \<le> length line \<Longrightarrow> substring line s (length line) = drop s line"
  by (simp add: substring_def)

lemma loop_fields:
  "s \<le> i \<Longrightarrow> i \<le> length line \<Longrightarrow>
   parseCSVLine_loop line i s q res = res @ fields (drop i line) (substring line s i) q"
proof (induction line i s q res rule: parseCSVLine_loop.induct)
  case (1 line i s q res)
  show ?case
  proof (cases "i < length line")
    case False
    with "1.prems" have "i = length line" by simp
    with "1.prems" show ?thesis
      by (subst parseCSVLine_loop.simps) (simp add: substring_end)
  next
    case True
    then have d: "drop i line = line ! i # drop (i + 1) line"
      by (simp add: Cons_nth_drop_Suc)
    from True "1.prems" have sn: "substring line s (i + 1) = substring line s i @ [line ! i]"
      by (simp add: substring_snoc)
    have e: "substring line (i + 1) (i + 1) = []" by (simp add: substring_def)
    show ?thesis
    proof (cases "line ! i = 34")
      case q34: True
      with True "1.prems" "1.IH"(1) have
        "parseCSVLine_loop line (i + 1) s (\<not> q) res
           = res @ fields (drop (i + 1) line) (substring line s (i + 1)) (\<not> q)"
        by simp
      with True q34 d sn show ?thesis
        by (subst parseCSVLine_loop.simps) simp
    next
      case n34: False
      show ?thesis
      proof (cases "line ! i = 44 \<and> \<not> q")
        case c: True
        with True n34 "1.prems" "1.IH"(2) have
          "parseCSVLine_loop line (i + 1) (i + 1) q (res @ [cellValue (substring line s i)])
             = (res @ [cellValue (substring line s i)])
               @ fields (drop (i + 1) line) (substring line (i + 1) (i + 1)) q"
          by simp
        with True n34 c d e show ?thesis
          by (subst parseCSVLine_loop.simps) simp
      next
        case nc: False
        with True n34 "1.prems" "1.IH"(3) have
          "parseCSVLine_loop line (i + 1) s q res
             = res @ fields (drop (i + 1) line) (substring line s (i + 1)) q"
          by simp
        with True n34 nc d sn show ?thesis
          by (subst parseCSVLine_loop.simps) auto
      qed
    qed
  qed
qed

lemma parseCSVLine_fields: "parseCSVLine line = fields line [] False"
  using loop_fields [of 0 0 line False "[]"]
  by (simp add: parseCSVLine_def substring_def)

lemma fields_no_quote:
  "34 \<notin> set v \<Longrightarrow> fields (v @ rest) cur True = fields rest (cur @ v) True"
  by (induction v arbitrary: cur) auto

lemma doubleQuotes_Nil: "doubleQuotes [] = []"
  by (simp add: doubleQuotes_def)

lemma doubleQuotes_Cons:
  "doubleQuotes (c # w) = (if c = 34 then 34 # 34 # doubleQuotes w else c # doubleQuotes w)"
  by (simp add: doubleQuotes_def)

lemma fields_doubled:
  "fields (doubleQuotes w @ rest) cur True = fields rest (cur @ doubleQuotes w) True"
  by (induction w arbitrary: cur) (simp_all add: doubleQuotes_Nil doubleQuotes_Cons)

lemma replaceDoubledQuotes_no_quote: "34 \<notin> set v \<Longrightarrow> replaceDoubledQuotes v = v"
  by (induction v rule: replaceDoubledQuotes.induct) auto

lemma replaceDoubledQuotes_doubleQuotes: "replaceDoubledQuotes (doubleQuotes w) = w"
proof (induction w)
  case Nil
  then show ?case by (simp add: doubleQuotes_Nil)
next
  case (Cons c w)
  show ?case
  proof (cases "c = 34")
    case True
    with Cons show ?thesis by (simp add: doubleQuotes_Cons)
  next
    case False
    show ?thesis
    proof (cases "doubleQuotes w")
      case Nil
      with Cons have "w = []" by simp
      with False show ?thesis by (simp add: doubleQuotes_Cons doubleQuotes_Nil)
    next
      case (Cons d ds)
      with False Cons.IH show ?thesis by (simp add: doubleQuotes_Cons)
    qed
  qed
qed

lemma slice_quoted: "slice_1_m1 (34 # v @ [34]) = v"
  by (simp add: slice_1_m1_def)

lemma cellValue_quoted:
  "cellValue (34 # v @ [34]) = trim (replaceDoubledQuotes v)"
proof -
  have "suffix [34] (34 # v @ [34])"
    by (rule suffixI [of _ "34 # v"]) simp
  then show ?thesis
    by (simp add: cellValue_def startsWith_def endsWith_def slice_quoted)
qed

lemma csvLine_shape:
  "join [44] (csvRow row) =
     34 # StudentName row @ 34 # 44 # 34 # doubleQuotes (AssignmentName row) @ 34 # 44 #
       join [44] [dateText (AssignmentDate row), [34] @ Category row @ [34],
                  (if Marks row \<noteq> [] then Marks row else []), TotalMarksPossible row]"
  by (simp add: csvRow_def)

text \<open>
  What does hold of the round trip: a student name and an assignment name that have no
  white space at either end (as every parsed cell has), with or without commas, are
  read back from the emitted line as its first two cells, as long as the student name
  has no double quote.
\<close>

lemma quoted_fields_round_trip:
  assumes "34 \<notin> set (StudentName row)"
    and "trim (StudentName row) = StudentName row"
    and "trim (AssignmentName row) = AssignmentName row"
  shows "take 2 (parseCSVLine (join [44] (csvRow row))) = [StudentName row, AssignmentName row]"
proof -
  let ?rest = "join [44] [dateText (AssignmentDate row), [34] @ Category row @ [34],
                  (if Marks row \<noteq> [] then Marks row else []), TotalMarksPossible row]"
  let ?an = "doubleQuotes (AssignmentName row)"
  have "fields (34 # StudentName row @ 34 # 44 # 34 # ?an @ 34 # 44 # ?rest) [] False
        = fields (StudentName row @ 34 # 44 # 34 # ?an @ 34 # 44 # ?rest) [34] True"
    by simp
  also have "\<dots> = fields (34 # 44 # 34 # ?an @ 34 # 44 # ?rest) ([34] @ StudentName row) True"
    using assms(1) by (rule fields_no_quote)
  also have "\<dots> = cellValue (34 # StudentName row @ [34])
                   # fields (?an @ 34 # 44 # ?rest) [34] True"
    by simp
  also have "fields (?an @ 34 # 44 # ?rest) [34] True
             = fields (34 # 44 # ?rest) ([34] @ ?an) True"
    by (rule fields_doubled)
  also have "\<dots> = cellValue (34 # ?an @ [34]) # fields ?rest [] False"
    by simp
  finally have "parseCSVLine (join [44] (csvRow row)) =
      cellValue (34 # StudentName row @ [34]) # cellValue (34 # ?an @ [34]) # fields ?rest [] False"
    by (simp only: parseCSVLine_fields csvLine_shape)
  then show ?thesis
    using assms
    by (simp add: cellValue_quoted replaceDoubledQuotes_no_quote replaceDoubledQuotes_doubleQuotes)
qed

text \<open>
  C9. A cell with a comma would be read back from the emitted line. The code does not
  do so for a student name that also has a double quote: the file line \<open>"a"",b",5\<close>
  parses into the student name \<open>a",b\<close>, which is emitted as \<open>"a",b"\<close> with its quote
  not doubled, and the emitted line parses into the first cell \<open>a\<close>.
\<close>

theorem quoted_student_name_not_recovered:
  "map StudentName
     (processClassInToGradebook exampleHost
        (parseCSV (ascii ''Name,HW'' @ [10] @ ascii '',10'' @ [10] @ ascii '','' @ [10] @
                   [34] @ ascii ''a'' @ [34, 34] @ ascii '',b'' @ [34] @ ascii '',5''))
        (ascii ''2024-01-02'') Map.empty)
   = [ascii ''a'' @ [34] @ ascii '',b'']
   \<and> map (\<lambda>r. parseCSVLine (join [44] (csvRow r)) ! 0)
     (processClassInToGradebook exampleHost
        (parseCSV (ascii ''Name,HW'' @ [10] @ ascii '',10'' @ [10] @ ascii '','' @ [10] @
                   [34] @ ascii ''a'' @ [34, 34] @ ascii '',b'' @ [34] @ ascii '',5''))
        (ascii ''2024-01-02'') Map.empty)
   = [ascii ''a'']"
  by code_simp

section \<open>Column classification\<close>

lemma analyzeRow_flags:
  "(hasNumeric (analyzeRow rt gm a st row) \<or> hasGrade (analyzeRow rt gm a st row)) =
   (hasNumeric st \<or> hasGrade st \<or> gradeEvidence rt a row)"
  by (auto simp: analyzeRow_def gradeEvidence_def Let_def)

lemma analyze_fold_flags:
  "(hasNumeric (foldl (analyzeRow rt gm a) st rows)
      \<or> hasGrade (foldl (analyzeRow rt gm a) st rows)) =
   (hasNumeric st \<or> hasGrade st \<or> (\<exists>row\<in>set rows. gradeEvidence rt a row))"
proof (induction rows arbitrary: st)
  case Nil
  then show ?case by simp
next
  case (Cons row rows)
  show ?case
    using Cons.IH [of "analyzeRow rt gm a st row"] analyzeRow_flags [of rt gm a st row]
    by auto
qed

lemma columnStat_type_if:
  "type (columnStat rt gm rows a) =
     (if \<exists>row\<in>set rows. gradeEvidence rt a row then MIXED else PURE_STATUS)"
  using analyze_fold_flags
    [of rt gm a "\<lparr>hasNumeric = False, hasGrade = False, valuesForAverage = []\<rparr>" rows]
  by (simp add: columnStat_def Let_def)

text \<open>
  C3. The type computed for an assignment column is MIXED exactly when some student row
  gives evidence, PURE_STATUS otherwise, and it does not depend on the grade mapping.
\<close>

theorem columnStat_type:
  "(type (columnStat rt gm rows a) = MIXED \<longleftrightarrow> (\<exists>row\<in>set rows. gradeEvidence rt a row))
   \<and> (type (columnStat rt gm rows a) = PURE_STATUS
        \<longleftrightarrow> \<not> (\<exists>row\<in>set rows. gradeEvidence rt a row))
   \<and> type (columnStat rt gm rows a) = type (columnStat rt gm' rows a)"
  by (simp add: columnStat_type_if)

theorem columnStat_type_witness:
  "type (columnStat exampleHost Map.empty
      [[ascii ''Ann'', ascii ''late''], [ascii ''Bob'', ascii ''a'']]
      \<lparr>name = ascii ''HW'', totalMarks = ascii ''10'', originalIndex = 1\<rparr>) = MIXED
   \<and> type (columnStat exampleHost [ascii ''LATE'' \<mapsto> ascii ''50'']
      [[ascii ''Ann'', ascii ''late''], [ascii ''Bob'', ascii ''-'']]
      \<lparr>name = ascii ''HW'', totalMarks = ascii ''10'', originalIndex = 1\<rparr>) = PURE_STATUS"
proof -
  let ?a = "\<lparr>name = ascii ''HW'', totalMarks = ascii ''10'', originalIndex = 1\<rparr>"
  have e1: "gradeEvidence exampleHost ?a [ascii ''Bob'', ascii ''a'']" by code_simp
  have e2: "\<not> gradeEvidence exampleHost ?a [ascii ''Ann'', ascii ''late'']" by code_simp
  have e3: "\<not> gradeEvidence exampleHost ?a [ascii ''Bob'', ascii ''-'']" by code_simp
  show ?thesis
    using columnStat_type [of exampleHost Map.empty
        "[[ascii ''Ann'', ascii ''late''], [ascii ''Bob'', ascii ''a'']]" ?a]
      columnStat_type [of exampleHost "[ascii ''LATE'' \<mapsto> ascii ''50'']"
        "[[ascii ''Ann'', ascii ''late''], [ascii ''Bob'', ascii ''-'']]" ?a]
      e1 e2 e3
    by simp
qed

section \<open>Statistics and dates are keyed by name\<close>

text \<open>
  The result of \<open>processClassInToGradebook\<close> is the
  concatenation of the \<open>processCell\<close> results over the qualifying students and the valid
  assignments, with the statistics and dates of the whole table.
\<close>

lemma process_cells:
  "processClassInToGradebook rt parsedData selectedDate gradeMapping =
     (let table = data parsedData;
          rows = drop (findHeaderRowIndex table + 3) table;
          as = assignmentsOf rt parsedData
      in concat (map (\<lambda>row. concat (map
           (processCell rt gradeMapping (columnStats rt gradeMapping rows as)
              (assignmentDates rt (workingDays rt selectedDate) as)
              (fallbackDate selectedDate) row) as))
           (qualifyingStudents parsedData)))"
proof -
  have skip: "concat (map (processRow rt gm stats dates fb as) rows) =
      concat (map (\<lambda>row. concat (map (processCell rt gm stats dates fb row) as))
        (filter (\<lambda>row. \<not> skipRow row) rows))" for gm stats dates fb as rows
    by (induction rows) (simp_all add: processRow_def)
  show ?thesis
  proof (cases "length (data parsedData) < findHeaderRowIndex (data parsedData) + 2")
    case True
    then show ?thesis
      by (simp add: processClassInToGradebook_def assignmentsOf_def Let_def)
  next
    case False
    then show ?thesis
      by (simp add: processClassInToGradebook_def assignmentsOf_def qualifyingStudents_def
          Let_def skip)
  qed
qed

lemma columnStats_snoc:
  "columnStats rt gm rows (as @ [a]) =
     (columnStats rt gm rows as)(name a \<mapsto> columnStat rt gm rows a)"
  by (simp add: columnStats_def)

lemma assignmentDates_snoc:
  "assignmentDates rt days (as @ [a]) =
     (if name a = protoKey then assignmentDates rt days as
      else (assignmentDates rt days as)
             (name a := elemAt days (randomIndex rt (length as) (length days))))"
  by (simp add: assignmentDates_def enumerate_append_eq)

lemma columnStats_defined:
  "a \<in> set as \<Longrightarrow> columnStats rt gm rows as (name a) \<noteq> None"
  by (induction as rule: rev_induct) (auto simp: columnStats_snoc)

lemma columnStats_rightmost:
  "j < length as \<Longrightarrow> \<forall>k. j < k \<and> k < length as \<longrightarrow> name (as ! k) \<noteq> name (as ! j) \<Longrightarrow>
   columnStats rt gm rows as (name (as ! j)) = Some (columnStat rt gm rows (as ! j))"
proof (induction as rule: rev_induct)
  case Nil
  then show ?case by simp
next
  case (snoc a as)
  show ?case
  proof (cases "j = length as")
    case True
    then show ?thesis by (simp add: columnStats_snoc)
  next
    case False
    with snoc.prems have j: "j < length as" by simp
    from snoc.prems j have "name ((as @ [a]) ! length as) \<noteq> name ((as @ [a]) ! j)"
      by (metis length_append_singleton lessI)
    then have ne: "name a \<noteq> name (as ! j)" using j by (simp add: nth_append)
    have "\<forall>k. j < k \<and> k < length as \<longrightarrow> name (as ! k) \<noteq> name (as ! j)"
    proof (intro allI impI)
      fix k assume k: "j < k \<and> k < length as"
      with snoc.prems(2) have "name ((as @ [a]) ! k) \<noteq> name ((as @ [a]) ! j)" by simp
      with k j show "name (as ! k) \<noteq> name (as ! j)" by (simp add: nth_append)
    qed
    with snoc.IH j have "columnStats rt gm rows as (name (as ! j)) = Some (columnStat rt gm rows (as ! j))"
      by simp
    with ne j show ?thesis by (simp add: columnStats_snoc nth_append)
  qed
qed

lemma assignmentDates_rightmost:
  "j < length as \<Longrightarrow> \<forall>k. j < k \<and> k < length as \<longrightarrow> name (as ! k) \<noteq> name (as ! j) \<Longrightarrow>
   name (as ! j) \<noteq> protoKey \<Longrightarrow>
   assignmentDates rt days as (name (as ! j)) = elemAt days (randomIndex rt j (length days))"
proof (induction as rule: rev_induct)
  case Nil
  then show ?case by simp
next
  case (snoc a as)
  show ?case
  proof (cases "j = length as")
    case True
    with snoc.prems show ?thesis by (simp add: assignmentDates_snoc)
  next
    case False
    with snoc.prems have j: "j < length as" by simp
    from snoc.prems j have "name ((as @ [a]) ! length as) \<noteq> name ((as @ [a]) ! j)"
      by (metis length_append_singleton lessI)
    then have ne: "name a \<noteq> name (as ! j)" using j by (simp add: nth_append)
    have "\<forall>k. j < k \<and> k < length as \<longrightarrow> name (as ! k) \<noteq> name (as ! j)"
    proof (intro allI impI)
      fix k assume k: "j < k \<and> k < length as"
      with snoc.prems(2) have "name ((as @ [a]) ! k) \<noteq> name ((as @ [a]) ! j)" by simp
      with k j show "name (as ! k) \<noteq> name (as ! j)" by (simp add: nth_append)
    qed
    moreover from snoc.prems(3) j have "name (as ! j) \<noteq> protoKey" by (simp add: nth_append)
    ultimately have "assignmentDates rt days as (name (as ! j))
        = elemAt days (randomIndex rt j (length days))"
      using snoc.IH j by simp
    with ne j show ?thesis by (simp add: assignmentDates_snoc nth_append)
  qed
qed

lemma stored_type_of_rightmost:
  "j < length as \<Longrightarrow> \<forall>k. j < k \<and> k < length as \<longrightarrow> name (as ! k) \<noteq> name (as ! j) \<Longrightarrow>
   map_option type (columnStats rt gm rows as (name (as ! j))) =
     Some (if \<exists>row\<in>set rows. gradeEvidence rt (as ! j) row then MIXED else PURE_STATUS)"
  by (simp add: columnStats_rightmost columnStat_type_if)

text \<open>
  The row produced for a cell of the assignment at position \<open>i\<close>, when \<open>j\<close> is the last
  position with the same name: the mark is resolved with the statistics computed for
  assignment \<open>j\<close>, and the date is that of the \<open>j\<close>-th draw unless the name is
  \<open>__proto__\<close>.
\<close>

lemma processCell_rightmost:
  assumes "i < length as" and "j < length as" and "name (as ! i) = name (as ! j)"
    and "\<forall>k. j < k \<and> k < length as \<longrightarrow> name (as ! k) \<noteq> name (as ! j)"
  shows "processCell rt gm (columnStats rt gm rows as) (assignmentDates rt days as)
           fallback row (as ! i) =
         (let rawMark = trim (orEmpty (elemAt row (originalIndex (as ! i))));
              day = elemAt days (randomIndex rt j (length days))
          in if rawMark = trim (name (as ! i)) then []
             else [\<lparr>StudentName = orEmpty (elemAt row 0),
                    AssignmentName = name (as ! i),
                    AssignmentDate =
                      (if name (as ! i) = protoKey then ObjectPrototype
                       else if falsy day then DateString fallback
                       else DateString (orEmpty day)),
                    Category = ascii ''Coursework'',
                    Marks = finalMark rt gm (as ! i) (columnStat rt gm rows (as ! j)) rawMark,
                    TotalMarksPossible =
                      toFixed1 rt (parseFloat rt (totalMarks (as ! i)))\<rparr>])"
proof (cases "name (as ! j) = protoKey")
  case True
  with assms columnStats_rightmost [of j as rt gm rows] show ?thesis
    by (simp add: processCell_def assignmentDate_def Let_def)
next
  case False
  with assms columnStats_rightmost [of j as rt gm rows]
    assignmentDates_rightmost [of j as rt days]
  show ?thesis
    by (simp add: processCell_def assignmentDate_def Let_def)
qed

text \<open>
  C2. A cell whose trimmed value is the submitted status word, in the column of the
  assignment at position \<open>i\<close>: no row is produced when the column is itself named by the
  status word; otherwise the mark is the rendered total of the column when the
  statistics stored under its name, those computed for the last assignment \<open>j\<close> with
  that name (\<open>j = i\<close> when no later column repeats the name), say PURE_STATUS, and
  their average when they say MIXED. \<open>toFixed\<close> never returns the empty string in
  JavaScript, so the \<open>0\<close> of \<open>|| '0'\<close> is never taken there; the theorem keeps the branch
  for an arbitrary host. The first part says that the rows of the result are exactly
  those of these cells.
\<close>

theorem submitted_cell_mark:
  assumes "as = assignmentsOf rt parsedData"
    and "rows = drop (findHeaderRowIndex (data parsedData) + 3) (data parsedData)"
    and "i < length as" and "j < length as" and "name (as ! i) = name (as ! j)"
    and "\<forall>k. j < k \<and> k < length as \<longrightarrow> name (as ! k) \<noteq> name (as ! j)"
    and "trim (orEmpty (elemAt row (originalIndex (as ! i)))) = submitted"
  shows "processClassInToGradebook rt parsedData selectedDate gradeMapping =
           concat (map (\<lambda>row. concat (map
             (processCell rt gradeMapping (columnStats rt gradeMapping rows as)
                (assignmentDates rt (workingDays rt selectedDate) as)
                (fallbackDate selectedDate) row) as))
             (qualifyingStudents parsedData))
         \<and> map Marks
             (processCell rt gradeMapping (columnStats rt gradeMapping rows as)
                (assignmentDates rt (workingDays rt selectedDate) as)
                (fallbackDate selectedDate) row (as ! i)) =
           (if trim (name (as ! i)) = submitted then []
            else [if type (columnStat rt gradeMapping rows (as ! j)) = PURE_STATUS
                  then toFixed1 rt (parseFloat rt (totalMarks (as ! i)))
                  else if toFixed1 rt (average (columnStat rt gradeMapping rows (as ! j))) = []
                       then ascii ''0''
                       else toFixed1 rt (average (columnStat rt gradeMapping rows (as ! j)))])"
proof -
  have "processClassInToGradebook rt parsedData selectedDate gradeMapping =
           concat (map (\<lambda>row. concat (map
             (processCell rt gradeMapping (columnStats rt gradeMapping rows as)
                (assignmentDates rt (workingDays rt selectedDate) as)
                (fallbackDate selectedDate) row) as))
             (qualifyingStudents parsedData))"
    using assms(1,2) process_cells [of rt parsedData selectedDate gradeMapping]
    by (simp add: Let_def)
  moreover have "map Marks
             (processCell rt gradeMapping (columnStats rt gradeMapping rows as)
                (assignmentDates rt (workingDays rt selectedDate) as)
                (fallbackDate selectedDate) row (as ! i)) =
           (if trim (name (as ! i)) = submitted then []
            else [if type (columnStat rt gradeMapping rows (as ! j)) = PURE_STATUS
                  then toFixed1 rt (parseFloat rt (totalMarks (as ! i)))
                  else if toFixed1 rt (average (columnStat rt gradeMapping rows (as ! j))) = []
                       then ascii ''0''
                       else toFixed1 rt (average (columnStat rt gradeMapping rows (as ! j)))])"
    using assms(7)
      processCell_rightmost [OF assms(3,4,5,6), of rt gradeMapping rows
        "workingDays rt selectedDate" "fallbackDate selectedDate" row]
    by (simp add: Let_def finalMark_submitted)
  ultimately show ?thesis by simp
qed

theorem submitted_cell_mark_witness:
  "map Marks
     (processCell exampleHost Map.empty
        (columnStats exampleHost Map.empty
           (drop (findHeaderRowIndex (data submittedExample) + 3) (data submittedExample))
           (assignmentsOf exampleHost submittedExample))
        (assignmentDates exampleHost (workingDays exampleHost (ascii ''2024-01-02''))
           (assignmentsOf exampleHost submittedExample))
        (fallbackDate (ascii ''2024-01-02''))
        [ascii ''Bob'', submitted, submitted]
        (assignmentsOf exampleHost submittedExample ! 0))
   = [ascii ''50.0'']
   \<and> map Marks
     (processCell exampleHost Map.empty
        (columnStats exampleHost Map.empty
           (drop (findHeaderRowIndex (data submittedExample) + 3) (data submittedExample))
           (assignmentsOf exampleHost submittedExample))
        (assignmentDates exampleHost (workingDays exampleHost (ascii ''2024-01-02''))
           (assignmentsOf exampleHost submittedExample))
        (fallbackDate (ascii ''2024-01-02''))
        [ascii ''Bob'', submitted, submitted]
        (assignmentsOf exampleHost submittedExample ! 1))
   = [ascii ''7.0'']"
proof -
  let ?as = "assignmentsOf exampleHost submittedExample"
  let ?rows = "drop (findHeaderRowIndex (data submittedExample) + 3) (data submittedExample)"
  let ?row = "[ascii ''Bob'', submitted, submitted]"
  have asv: "?as = [\<lparr>name = ascii ''HW'', totalMarks = ascii ''50'', originalIndex = 1\<rparr>,
                    \<lparr>name = ascii ''Quiz'', totalMarks = ascii ''20'', originalIndex = 2\<rparr>]"
    by code_simp
  have h0: "0 < length ?as" and h1: "1 < length ?as" unfolding asv by simp_all
  have n0: "name (?as ! 0) = name (?as ! 0)" and n1: "name (?as ! 1) = name (?as ! 1)"
    by simp_all
  have l0: "\<forall>k. 0 < k \<and> k < length ?as \<longrightarrow> name (?as ! k) \<noteq> name (?as ! 0)"
    unfolding asv by (auto simp: less_Suc_eq)
  have l1: "\<forall>k. 1 < k \<and> k < length ?as \<longrightarrow> name (?as ! k) \<noteq> name (?as ! 1)"
    unfolding asv by (auto simp: less_Suc_eq)
  have c0: "trim (orEmpty (elemAt ?row (originalIndex (?as ! 0)))) = submitted" by code_simp
  have c1: "trim (orEmpty (elemAt ?row (originalIndex (?as ! 1)))) = submitted" by code_simp
  have e0: "trim (name (?as ! 0)) \<noteq> submitted"
    "type (columnStat exampleHost Map.empty ?rows (?as ! 0)) = PURE_STATUS"
    "toFixed1 exampleHost (parseFloat exampleHost (totalMarks (?as ! 0))) = ascii ''50.0''"
    by code_simp+
  have e1: "trim (name (?as ! 1)) \<noteq> submitted"
    "type (columnStat exampleHost Map.empty ?rows (?as ! 1)) = MIXED"
    "toFixed1 exampleHost (average (columnStat exampleHost Map.empty ?rows (?as ! 1)))
       = ascii ''7.0''"
    by code_simp+
  have ne: "MIXED \<noteq> PURE_STATUS" "ascii ''7.0'' \<noteq> []" by simp_all
  from submitted_cell_mark [OF refl refl h0 h0 n0 l0 c0, of "ascii ''2024-01-02''" Map.empty]
  have "map Marks
     (processCell exampleHost Map.empty (columnStats exampleHost Map.empty ?rows ?as)
        (assignmentDates exampleHost (workingDays exampleHost (ascii ''2024-01-02'')) ?as)
        (fallbackDate (ascii ''2024-01-02'')) ?row (?as ! 0)) = [ascii ''50.0'']"
    using e0 by (simp only: if_False if_True simp_thms)
  moreover
  from submitted_cell_mark [OF refl refl h1 h1 n1 l1 c1, of "ascii ''2024-01-02''" Map.empty]
  have "map Marks
     (processCell exampleHost Map.empty (columnStats exampleHost Map.empty ?rows ?as)
        (assignmentDates exampleHost (workingDays exampleHost (ascii ''2024-01-02'')) ?as)
        (fallbackDate (ascii ''2024-01-02'')) ?row (?as ! 1)) = [ascii ''7.0'']"
    using e1 ne by (simp only: if_False if_True simp_thms)
  ultimately show ?thesis by (rule conjI)
qed

text \<open>
  The claim as stated, with the classification of the cell's own column, fails when a
  later column repeats the name: in the file \<open>Name,HW,HW\<close>, maxima 10 and 20, \<open>Bob\<close> with
  the status word and 7, the first column on its own cells is PURE_STATUS, yet its mark
  is the average 7.0 of the second column, not the total 10.0.
\<close>

theorem same_name_column_takes_other_statistics:
  "map (\<lambda>a. type (columnStat exampleHost Map.empty
          (drop 3 (data (parseCSV (ascii ''Name,HW,HW'' @ [10] @ ascii '',10,20'' @ [10] @
             ascii '',,'' @ [10] @ ascii ''Bob,'' @ submitted @ ascii '',7''))))
          a))
     (assignmentsOf exampleHost
        (parseCSV (ascii ''Name,HW,HW'' @ [10] @ ascii '',10,20'' @ [10] @
           ascii '',,'' @ [10] @ ascii ''Bob,'' @ submitted @ ascii '',7'')))
   = [PURE_STATUS, MIXED]
   \<and> map (\<lambda>r. (AssignmentName r, Marks r, TotalMarksPossible r))
     (processClassInToGradebook exampleHost
        (parseCSV (ascii ''Name,HW,HW'' @ [10] @ ascii '',10,20'' @ [10] @
           ascii '',,'' @ [10] @ ascii ''Bob,'' @ submitted @ ascii '',7''))
        (ascii ''2024-01-02'') Map.empty)
   = [(ascii ''HW'', ascii ''7.0'', ascii ''10.0''), (ascii ''HW'', ascii ''7.0'', ascii ''20.0'')]"
  by code_simp

text \<open>
  C10. Statistics and dates would both be those of the last column with the name. The
  statistics are (lemma \<open>processCell_rightmost\<close>), and so is the date for every name but
  one: for two columns named \<open>__proto__\<close> the marks are resolved as for any name, but the
  draw is never stored, the date is \<open>Object.prototype\<close> and the emitted date field
  is \<open>[object Object]\<close>, where the only working day of the host is 02/01/2024.
\<close>

theorem proto_column_date_is_not_the_draw:
  "map (\<lambda>r. (AssignmentName r, Marks r, AssignmentDate r, csvRow r ! 2))
     (processClassInToGradebook exampleHost
        (parseCSV (ascii ''Name,__proto__,__proto__'' @ [10] @ ascii '',10,20'' @ [10] @
           ascii '',,'' @ [10] @ ascii ''Bob,5,7''))
        (ascii ''2024-01-02'') Map.empty)
   = [(ascii ''__proto__'', ascii ''5.0'', ObjectPrototype, ascii ''[object Object]''),
      (ascii ''__proto__'', ascii ''7.0'', ObjectPrototype, ascii ''[object Object]'')]
   \<and> workingDays exampleHost (ascii ''2024-01-02'') = [ascii ''02/01/2024'']"
  by code_simp

section \<open>The rows produced\<close>

lemma processCell_names:
  "map (\<lambda>r. (StudentName r, AssignmentName r))
     (concat (map (processCell rt gm stats dates fb row) as)) =
   map (\<lambda>a. (orEmpty (elemAt row 0), name a)) (filter (\<lambda>a. \<not> cellIsHeader a row) as)"
  by (induction as) (simp_all add: processCell_def cellIsHeader_def Let_def)

lemma processRow_names:
  "map (\<lambda>r. (StudentName r, AssignmentName r))
     (concat (map (processRow rt gm stats dates fb as) rows)) =
   concat (map (\<lambda>row. map (\<lambda>a. (orEmpty (elemAt row 0), name a))
                        (filter (\<lambda>a. \<not> cellIsHeader a row) as))
             (filter (\<lambda>row. \<not> skipRow row) rows))"
proof (induction rows)
  case Nil
  then show ?case by simp
next
  case (Cons row rows)
  then show ?case
    using processCell_names [of rt gm stats dates fb row as]
    by (simp add: processRow_def)
qed

lemma process_names:
  "map (\<lambda>r. (StudentName r, AssignmentName r))
     (processClassInToGradebook rt parsedData selectedDate gradeMapping) =
   concat (map (\<lambda>row. map (\<lambda>a. (orEmpty (elemAt row 0), name a))
                        (filter (\<lambda>a. \<not> cellIsHeader a row) (assignmentsOf rt parsedData)))
             (qualifyingStudents parsedData))"
proof (cases "length (data parsedData) < findHeaderRowIndex (data parsedData) + 2")
  case True
  then show ?thesis
    by (simp add: processClassInToGradebook_def assignmentsOf_def Let_def)
next
  case False
  then show ?thesis
    by (simp add: processClassInToGradebook_def assignmentsOf_def qualifyingStudents_def
        Let_def processRow_names)
qed

lemma length_concat_filter_le:
  "length (concat (map (\<lambda>row. map (f row) (filter (P row) as)) rows))
     \<le> length rows * length as"
proof (induction rows)
  case Nil
  then show ?case by simp
next
  case (Cons row rows)
  then show ?case by (simp add: add_mono)
qed

lemma length_concat_filter_all:
  "\<forall>row\<in>set rows. \<forall>a\<in>set as. P row a \<Longrightarrow>
   length (concat (map (\<lambda>row. map (f row) (filter (P row) as)) rows))
     = length rows * length as"
proof (induction rows)
  case Nil
  then show ?case by simp
next
  case (Cons row rows)
  then have "filter (P row) as = as" by (simp add: filter_id_conv)
  with Cons show ?case by simp
qed

text \<open>
  C1. The rows of the result are, in order, one for each pair of a qualifying student
  and a valid assignment whose cell is not the name of the column; there are at most
  (students) times (assignments) of them, and exactly that many when no cell names its
  column.
\<close>

theorem one_row_per_pair_not_naming_the_column:
  "map (\<lambda>r. (StudentName r, AssignmentName r))
     (processClassInToGradebook rt parsedData selectedDate gradeMapping) =
   concat (map (\<lambda>row. map (\<lambda>a. (orEmpty (elemAt row 0), name a))
                        (filter (\<lambda>a. \<not> cellIsHeader a row) (assignmentsOf rt parsedData)))
             (qualifyingStudents parsedData))
   \<and> length (processClassInToGradebook rt parsedData selectedDate gradeMapping)
       \<le> length (qualifyingStudents parsedData) * length (assignmentsOf rt parsedData)
   \<and> ((\<forall>row\<in>set (qualifyingStudents parsedData).
          \<forall>a\<in>set (assignmentsOf rt parsedData). \<not> cellIsHeader a row)
        \<longrightarrow> length (processClassInToGradebook rt parsedData selectedDate gradeMapping)
            = length (qualifyingStudents parsedData) * length (assignmentsOf rt parsedData))"
proof -
  let ?out = "processClassInToGradebook rt parsedData selectedDate gradeMapping"
  let ?S = "qualifyingStudents parsedData"
  let ?A = "assignmentsOf rt parsedData"
  let ?pairs = "concat (map (\<lambda>row. map (\<lambda>a. (orEmpty (elemAt row 0), name a))
                        (filter (\<lambda>a. \<not> cellIsHeader a row) ?A)) ?S)"
  have names: "map (\<lambda>r. (StudentName r, AssignmentName r)) ?out = ?pairs"
    by (rule process_names)
  then have len: "length ?out = length ?pairs"
    by (metis length_map)
  have le: "length ?pairs \<le> length ?S * length ?A"
    by (rule length_concat_filter_le)
  have eq: "length ?pairs = length ?S * length ?A"
    if "\<forall>row\<in>set ?S. \<forall>a\<in>set ?A. \<not> cellIsHeader a row"
    using that by (rule length_concat_filter_all)
  from names len le eq show ?thesis by simp
qed

theorem one_row_per_pair_witness:
  "length (processClassInToGradebook exampleHost
      \<lparr>headers = [],
       data = [[ascii ''Name'', ascii ''HW1'', ascii ''Quiz''],
               [[], ascii ''10'', ascii ''20''], [[], [], []],
               [ascii ''Ann'', ascii ''9'', ascii ''A''], [ascii ''Bob'', ascii ''-'', ascii ''18'']]\<rparr>
      (ascii ''2024-01-02'') Map.empty) = 4"
proof -
  let ?T = "\<lparr>headers = [],
       data = [[ascii ''Name'', ascii ''HW1'', ascii ''Quiz''],
               [[], ascii ''10'', ascii ''20''], [[], [], []],
               [ascii ''Ann'', ascii ''9'', ascii ''A''], [ascii ''Bob'', ascii ''-'', ascii ''18'']]\<rparr>"
  have q: "length (qualifyingStudents ?T) = 2" by code_simp
  have a: "length (assignmentsOf exampleHost ?T) = 2" by code_simp
  have "list_all (\<lambda>row. list_all (\<lambda>a. \<not> cellIsHeader a row) (assignmentsOf exampleHost ?T))
          (qualifyingStudents ?T)"
    by code_simp
  then have h: "\<forall>row\<in>set (qualifyingStudents ?T).
      \<forall>a\<in>set (assignmentsOf exampleHost ?T). \<not> cellIsHeader a row"
    by (simp add: list_all_iff)
  show ?thesis
    using one_row_per_pair_not_naming_the_column
      [of exampleHost ?T "ascii ''2024-01-02''" Map.empty] h q a
    by simp
qed

text \<open>
  The product itself fails: one student, one valid assignment, and a cell that repeats
  the header \<open>HW\<close> give no row.
\<close>

theorem record_count_counterexample:
  "length (qualifyingStudents
      \<lparr>headers = [], data = [[ascii ''Name'', ascii ''HW''], [[], ascii ''10''], [[], []],
                            [ascii ''Bob'', ascii ''HW'']]\<rparr>) = 1
   \<and> length (assignmentsOf exampleHost
      \<lparr>headers = [], data = [[ascii ''Name'', ascii ''HW''], [[], ascii ''10''], [[], []],
                            [ascii ''Bob'', ascii ''HW'']]\<rparr>) = 1
   \<and> processClassInToGradebook exampleHost
      \<lparr>headers = [], data = [[ascii ''Name'', ascii ''HW''], [[], ascii ''10''], [[], []],
                            [ascii ''Bob'', ascii ''HW'']]\<rparr>
      (ascii ''2024-01-02'') Map.empty = []"
  by code_simp

section \<open>The discovery pass and the grade mapping\<close>

lemma set_setAdd: "set (setAdd raw U) = insert raw (set U)"
  by (auto simp: setAdd_def)

lemma distinct_setAdd: "distinct U \<Longrightarrow> distinct (setAdd raw U)"
  by (simp add: setAdd_def)

lemma scanCell_set:
  "index < length hdr \<Longrightarrow>
   set (scanCell rt hdr row U index) =
     set U \<union> {raw. raw = trim (orEmpty (elemAt row index)) \<and> discoverable rt (hdr ! index) raw}"
  by (auto simp: scanCell_def discoverable_def elemAt_def set_setAdd Let_def)

lemma scanCell_distinct: "distinct U \<Longrightarrow> distinct (scanCell rt hdr row U index)"
  by (simp add: scanCell_def distinct_setAdd Let_def)

lemma scanCells_set:
  "\<forall>i\<in>set idxs. i < length hdr \<Longrightarrow>
   set (foldl (scanCell rt hdr row) U idxs) =
     set U \<union> {raw. \<exists>i\<in>set idxs. raw = trim (orEmpty (elemAt row i))
                      \<and> discoverable rt (hdr ! i) raw}"
proof (induction idxs arbitrary: U)
  case Nil
  then show ?case by simp
next
  case (Cons i idxs)
  then have "set (foldl (scanCell rt hdr row) (scanCell rt hdr row U i) idxs) =
      set (scanCell rt hdr row U i) \<union> {raw. \<exists>i\<in>set idxs. raw = trim (orEmpty (elemAt row i))
                      \<and> discoverable rt (hdr ! i) raw}"
    by simp
  moreover from Cons.prems have "i < length hdr" by simp
  ultimately show ?case by (auto simp: scanCell_set)
qed

lemma scanCells_distinct:
  "distinct U \<Longrightarrow> distinct (foldl (scanCell rt hdr row) U idxs)"
  by (induction idxs arbitrary: U) (simp_all add: scanCell_distinct)

lemma scanRows_set:
  "\<forall>i\<in>set idxs. i < length hdr \<Longrightarrow>
   set (foldl (scanRow rt hdr idxs) U rows) =
     set U \<union> {raw. \<exists>row\<in>set (filter (\<lambda>row. \<not> skipRow row) rows). \<exists>i\<in>set idxs.
                      raw = trim (orEmpty (elemAt row i)) \<and> discoverable rt (hdr ! i) raw}"
proof (induction rows arbitrary: U)
  case Nil
  then show ?case by simp
next
  case (Cons row rows)
  have step: "set (scanRow rt hdr idxs U row) =
      set U \<union> (if skipRow row then {}
                else {raw. \<exists>i\<in>set idxs. raw = trim (orEmpty (elemAt row i))
                      \<and> discoverable rt (hdr ! i) raw})"
    using Cons.prems by (simp add: scanRow_def scanCells_set)
  from Cons have "set (foldl (scanRow rt hdr idxs) (scanRow rt hdr idxs U row) rows) =
      set (scanRow rt hdr idxs U row) \<union>
      {raw. \<exists>row\<in>set (filter (\<lambda>row. \<not> skipRow row) rows). \<exists>i\<in>set idxs.
                      raw = trim (orEmpty (elemAt row i)) \<and> discoverable rt (hdr ! i) raw}"
    by simp
  with step show ?case by auto
qed

lemma scanRows_distinct:
  "distinct U \<Longrightarrow> distinct (foldl (scanRow rt hdr idxs) U rows)"
  by (induction rows arbitrary: U) (simp_all add: scanRow_def scanCells_distinct)

lemma validIndices_bound: "\<forall>i\<in>set (validIndices rt hdr maxRow). i < length hdr"
  by (simp add: validIndices_def)

lemma validAssignments_indices:
  "map originalIndex (validAssignments rt hdr maxRow) = validIndices rt hdr maxRow"
  by (simp add: validAssignments_def validIndices_def comp_def)

text \<open>
  C5. The discovery pass returns, without duplicates, exactly the trimmed cells of the
  valid assignment columns of the qualifying student rows that are discoverable. A
  standard grade letter is discoverable like any other text.
\<close>

theorem discovered_statuses:
  "set (getUniqueNonNumericMarks rt parsedData) =
     {raw. \<exists>row\<in>set (qualifyingStudents parsedData). \<exists>i\<in>set (indicesOf rt parsedData).
             raw = trim (orEmpty (elemAt row i)) \<and> discoverable rt (headerCell parsedData i) raw}
   \<and> distinct (getUniqueNonNumericMarks rt parsedData)"
proof (cases "length (data parsedData) < findHeaderRowIndex (data parsedData) + 2")
  case True
  then have "getUniqueNonNumericMarks rt parsedData = []"
    by (auto simp: getUniqueNonNumericMarks_def Let_def)
  with True show ?thesis by (simp add: indicesOf_def Let_def)
next
  case False
  let ?t = "data parsedData"
  let ?h = "findHeaderRowIndex ?t"
  let ?idxs = "validIndices rt (?t ! ?h) (?t ! (?h + 1))"
  from False have eq: "getUniqueNonNumericMarks rt parsedData =
      foldl (scanRow rt (?t ! ?h) ?idxs) [] (drop (?h + 3) ?t)"
    by (auto simp: getUniqueNonNumericMarks_def Let_def)
  have "set (foldl (scanRow rt (?t ! ?h) ?idxs) [] (drop (?h + 3) ?t)) =
      set [] \<union> {raw. \<exists>row\<in>set (filter (\<lambda>row. \<not> skipRow row) (drop (?h + 3) ?t)). \<exists>i\<in>set ?idxs.
                      raw = trim (orEmpty (elemAt row i)) \<and> discoverable rt (?t ! ?h ! i) raw}"
    by (rule scanRows_set) (rule validIndices_bound)
  moreover have "distinct (foldl (scanRow rt (?t ! ?h) ?idxs) [] (drop (?h + 3) ?t))"
    by (rule scanRows_distinct) simp
  ultimately show ?thesis
    using False eq
    by (simp add: indicesOf_def qualifyingStudents_def headerCell_def Let_def)
qed

theorem discovered_statuses_witness:
  "set (getUniqueNonNumericMarks exampleHost
     \<lparr>headers = [],
      data = [[ascii ''Name'', ascii ''HW''], [[], ascii ''10''], [[], []],
              [ascii ''Bob'', ascii ''late''], [ascii ''Ann'', ascii ''9'']]\<rparr>)
   = {ascii ''late''}"
proof -
  let ?T = "\<lparr>headers = [],
      data = [[ascii ''Name'', ascii ''HW''], [[], ascii ''10''], [[], []],
              [ascii ''Bob'', ascii ''late''], [ascii ''Ann'', ascii ''9'']]\<rparr>"
  have q: "qualifyingStudents ?T = [[ascii ''Bob'', ascii ''late''], [ascii ''Ann'', ascii ''9'']]"
    by code_simp
  have i: "indicesOf exampleHost ?T = [1]" by code_simp
  have c1: "trim (orEmpty (elemAt [ascii ''Bob'', ascii ''late''] 1)) = ascii ''late''"
    by code_simp
  have c2: "trim (orEmpty (elemAt [ascii ''Ann'', ascii ''9''] 1)) = ascii ''9''" by code_simp
  have d1: "discoverable exampleHost (headerCell ?T 1) (ascii ''late'')" by code_simp
  have d2: "\<not> discoverable exampleHost (headerCell ?T 1) (ascii ''9'')" by code_simp
  show ?thesis
    using discovered_statuses [of exampleHost ?T] q i c1 c2 d1 d2 by auto
qed

text \<open>
  The claim as stated excludes the standard grade letters; the cell \<open>A\<close> is returned.
\<close>

theorem discovery_returns_grade_letters:
  "getUniqueNonNumericMarks exampleHost
     (parseCSV (ascii ''Name,HW'' @ [10] @ ascii '',10'' @ [10] @ ascii '','' @ [10] @ ascii ''Bob,A''))
   = [ascii ''A'']"
  by code_simp

lemma addStatus_fold_lookup:
  "fst (foldl (addStatus rt) (m, b) xs) k =
     (case m k of Some v \<Rightarrow> Some v
      | None \<Rightarrow> if k \<in> toUpperCase rt ` set xs then Some (ascii ''0'') else None)"
proof (induction xs arbitrary: m b)
  case Nil
  then show ?case by (simp split: option.splits)
next
  case (Cons x xs)
  then show ?case
    by (auto simp: addStatus_def Let_def split: option.splits)
qed

lemma addStatus_fold_changed: "snd (foldl (addStatus rt) (m, True) xs)"
  by (induction xs arbitrary: m) (auto simp: addStatus_def Let_def)

lemma addStatus_fold_unchanged:
  "\<not> snd (foldl (addStatus rt) (m, False) xs) \<Longrightarrow> fst (foldl (addStatus rt) (m, False) xs) = m"
proof (induction xs arbitrary: m)
  case Nil
  then show ?case by simp
next
  case (Cons x xs)
  show ?case
  proof (cases "m (toUpperCase rt x) = None")
    case True
    then have "addStatus rt (m, False) x = (m(toUpperCase rt x \<mapsto> ascii ''0''), True)"
      by (simp add: addStatus_def Let_def)
    with Cons.prems addStatus_fold_changed [of rt _ xs] show ?thesis by simp
  next
    case False
    then have "addStatus rt (m, False) x = (m, False)"
      by (simp add: addStatus_def Let_def)
    with Cons show ?thesis by simp
  qed
qed

lemma mergeStatuses_fst:
  "mergeStatuses rt prev found = fst (foldl (addStatus rt) (prev, False) found)"
  by (simp add: mergeStatuses_def Let_def addStatus_fold_unchanged)

lemma mergeStatuses_lookup:
  "mergeStatuses rt prev found k =
     (case prev k of Some v \<Rightarrow> Some v
      | None \<Rightarrow> if k \<in> toUpperCase rt ` set found then Some (ascii ''0'') else None)"
  by (simp add: mergeStatuses_fst addStatus_fold_lookup)

lemma mergeStatuses_idem:
  "mergeStatuses rt (mergeStatuses rt prev found) found = mergeStatuses rt prev found"
  by (rule ext) (simp add: mergeStatuses_lookup split: option.splits)

text \<open>
  C8. After a file is selected, a key of the old mapping keeps its value, a key that was
  absent is present exactly when it is the upper-case form of a found status, then with
  the value \<open>0\<close>; selecting the same content again changes nothing.
\<close>

theorem handleFileSelect_frame:
  "handleFileSelect rt prev content k =
     (case prev k of Some v \<Rightarrow> Some v
      | None \<Rightarrow>
          if k \<in> toUpperCase rt ` set (getUniqueNonNumericMarks rt (parseCSV content))
          then Some (ascii ''0'') else None)
   \<and> handleFileSelect rt (handleFileSelect rt prev content) content
       = handleFileSelect rt prev content"
  by (simp add: handleFileSelect_def mergeStatuses_lookup mergeStatuses_idem)

theorem handleFileSelect_frame_witness:
  "handleFileSelect exampleHost [ascii ''A'' \<mapsto> ascii ''90'']
     (ascii ''Name,HW'' @ [10] @ ascii '',10'' @ [10] @ ascii '','' @ [10] @
      ascii ''Bob,late'' @ [10] @ ascii ''Ann,a'')
     (ascii ''LATE'') = Some (ascii ''0'')
   \<and> handleFileSelect exampleHost [ascii ''A'' \<mapsto> ascii ''90'']
     (ascii ''Name,HW'' @ [10] @ ascii '',10'' @ [10] @ ascii '','' @ [10] @
      ascii ''Bob,late'' @ [10] @ ascii ''Ann,a'')
     (ascii ''A'') = Some (ascii ''90'')"
proof -
  let ?c = "(ascii ''Name,HW'' @ [10] @ ascii '',10'' @ [10] @ ascii '','' @ [10] @
             ascii ''Bob,late'' @ [10] @ ascii ''Ann,a'') :: jsstring"
  let ?m = "[ascii ''A'' \<mapsto> ascii ''90''] :: GradeMapping"
  have f: "getUniqueNonNumericMarks exampleHost (parseCSV ?c) = [ascii ''late'', ascii ''a'']"
    by code_simp
  have u: "toUpperCase exampleHost (ascii ''late'') = ascii ''LATE''"
    by code_simp
  show ?thesis
    using handleFileSelect_frame [of exampleHost ?m ?c "ascii ''LATE''"]
      handleFileSelect_frame [of exampleHost ?m ?c "ascii ''A''"] f u
    by simp
qed

end
